theory Spec2Isabelle
  imports Main
begin

section \<open>Python values and exceptions\<close>

text \<open>
  The values that reach \<^verbatim>\<open>str()\<close> in \<^verbatim>\<open>avalon/fusion/pipeline.py\<close>:
  \<^verbatim>\<open>None\<close>, booleans, unbounded integers, text, and any other object, which is
  represented by the text its \<^verbatim>\<open>__str__\<close> returns (a database ObjectId, for
  instance, or a list). Strings are Python 3 text, on which \<^verbatim>\<open>str()\<close> is the identity.
\<close>

datatype pyval = PNone | PBool bool | PInt int | PStr string | PObj string

text \<open>
  A value found under a key of the \<^verbatim>\<open>context\<close> dictionary: a document (a dictionary
  from field names to values), or a value that cannot be subscripted with a field name.
\<close>

datatype ctxval = Scalar pyval | Doc "string \<rightharpoonup> pyval"

type_synonym asset_context = "string \<rightharpoonup> ctxval"

datatype error =
    KeyError string
  | TypeError
  | AttributeError
  | ImportError
  | OtherError string

fun dec_nat :: "nat \<Rightarrow> string" where
  "dec_nat n =
     (if n < 10 then [''0123456789'' ! n]
      else dec_nat (n div 10) @ [''0123456789'' ! (n mod 10)])"

declare dec_nat.simps [simp del]

text \<open>The builtin \<^verbatim>\<open>str\<close> on these values.\<close>

fun py_str :: "pyval \<Rightarrow> string" where
  "py_str PNone = ''None''"
| "py_str (PBool b) = (if b then ''True'' else ''False'')"
| "py_str (PInt i) = (if i < 0 then ''-'' @ dec_nat (nat (- i)) else dec_nat (nat i))"
| "py_str (PStr s) = s"
| "py_str (PObj s) = s"

text \<open>Subscription \<^verbatim>\<open>d[k]\<close>: a missing key raises KeyError, a non-dictionary TypeError.\<close>

definition getitem :: "(string \<rightharpoonup> 'v) \<Rightarrow> string \<Rightarrow> error + 'v" where
  "getitem d k = (case d k of None \<Rightarrow> Inl (KeyError k) | Some v \<Rightarrow> Inr v)"

definition getitem_ctxval :: "ctxval \<Rightarrow> string \<Rightarrow> error + pyval" where
  "getitem_ctxval v k = (case v of Scalar _ \<Rightarrow> Inl TypeError | Doc d \<Rightarrow> getitem d k)"

section \<open>The host process\<close>

type_synonym handle = nat

text \<open>A node of the composition (a "tool"): its kind, its display name, its attached data.\<close>

record tool_obj =
  ID :: string
  Name :: string
  data :: "string \<rightharpoonup> pyval"

text \<open>
  A composition: the tools that \<^verbatim>\<open>GetToolList\<close> lists, in the order in which the
  returned table enumerates them, and those of them that are selected.
\<close>

record comp_obj =
  all_tools :: "handle list"
  selected_tools :: "handle list"

record fusion_obj =
  CurrentComp :: "handle option"

datatype log_handler = CompLogHandler string | OtherHandler nat

text \<open>
  What importing a module by name does: there is no such module, running the module
  raises, or a module object results. A module object has a name and possibly an
  attribute \<^verbatim>\<open>install\<close>, which is a function (that returns, or raises) or some
  object that cannot be called.
\<close>

datatype attr = Function "error option" | NonCallable

record module_obj =
  mod_name :: string
  install_attr :: "attr option"

datatype import_outcome = NoModule | ImportRaises error | Module module_obj

text \<open>Every call made into the host and into the libraries, in the order made.\<close>

datatype call =
    SetDataCall handle string pyval
  | GetDataCall handle string
  | GetToolListCall handle bool
  | LockCall handle
  | StartUndoCall handle string
  | UnlockCall handle
  | EndUndoCall handle
  | RegisterHostCall string
  | ImportModuleCall string
  | AttrCall string string "pyval list"

record proc =
  fusion :: "fusion_obj option"
  comps :: "handle \<Rightarrow> comp_obj"
  tools :: "handle \<Rightarrow> tool_obj"
  root_handlers :: "log_handler list"
  root_level :: nat
  importable :: "string \<Rightarrow> import_outcome"
  trace :: "call list"

section \<open>Statements: state passing with exceptions\<close>

type_synonym 'a py = "proc \<Rightarrow> (error + 'a) \<times> proc"

definition py_return :: "'a \<Rightarrow> 'a py" where
  "py_return x s = (Inr x, s)"

definition py_raise :: "error \<Rightarrow> 'a py" where
  "py_raise e s = (Inl e, s)"

definition py_lift :: "error + 'a \<Rightarrow> 'a py" where
  "py_lift r s = (r, s)"

definition py_bind :: "'a py \<Rightarrow> ('a \<Rightarrow> 'b py) \<Rightarrow> 'b py" where
  "py_bind m f s = (case m s of (Inl e, s') \<Rightarrow> (Inl e, s') | (Inr x, s') \<Rightarrow> f x s')"

text \<open>\<^verbatim>\<open>for x in xs: body(x)\<close>\<close>

fun for_each :: "'a list \<Rightarrow> ('a \<Rightarrow> unit py) \<Rightarrow> unit py" where
  "for_each [] body = py_return ()"
| "for_each (x # xs) body = py_bind (body x) (\<lambda>_. for_each xs body)"

text \<open>The same loop when the body updates a local variable \<open>acc\<close>.\<close>

fun for_fold :: "'a list \<Rightarrow> 'b \<Rightarrow> ('a \<Rightarrow> 'b \<Rightarrow> 'b py) \<Rightarrow> 'b py" where
  "for_fold [] acc body = py_return acc"
| "for_fold (x # xs) acc body = py_bind (body x acc) (\<lambda>acc'. for_fold xs acc' body)"

text \<open>
  \<^verbatim>\<open>try: body finally: fin\<close>: \<open>fin\<close> runs however \<open>body\<close> ends; an exception of
  \<open>fin\<close> replaces the outcome of \<open>body\<close>.
\<close>

definition try_finally :: "'a py \<Rightarrow> unit py \<Rightarrow> 'a py" where
  "try_finally body fin s =
     (case body s of (r, s1) \<Rightarrow>
        (case fin s1 of (Inl e, s2) \<Rightarrow> (Inl e, s2) | (Inr _, s2) \<Rightarrow> (r, s2)))"

text \<open>
  \<^verbatim>\<open>try: body except E: handler else: orelse\<close>, where \<open>handles\<close> says which
  exceptions are instances of \<open>E\<close>.
\<close>

definition try_except_else ::
  "'a py \<Rightarrow> (error \<Rightarrow> bool) \<Rightarrow> 'b py \<Rightarrow> ('a \<Rightarrow> 'b py) \<Rightarrow> 'b py" where
  "try_except_else body handles handler orelse s =
     (case body s of
        (Inl e, s1) \<Rightarrow> if handles e then handler s1 else (Inl e, s1)
      | (Inr x, s1) \<Rightarrow> orelse x s1)"

definition log_call :: "call \<Rightarrow> proc \<Rightarrow> proc" where
  "log_call c s = s\<lparr>trace := trace s @ [c]\<rparr>"

section \<open>The host's scripting surface\<close>

text \<open>
  The host application's objects are not part of this repository; the module is a client
  of their methods. Each method is given here as the spec's list of the host node capability
  surface describes it, and each call is recorded in the trace. None of them raises.
\<close>

text \<open>
  Modelled from the spec: \<^verbatim>\<open>SetData(key, value)\<close> of a host node, which attaches the
  value to the node under the key and replaces a value that the key held.
\<close>

definition SetData :: "handle \<Rightarrow> string \<Rightarrow> pyval \<Rightarrow> unit py" where
  "SetData tool key v s =
     (Inr (),
      log_call (SetDataCall tool key v)
        (s\<lparr>tools := (tools s)(tool := (tools s tool)\<lparr>data := (data (tools s tool))(key \<mapsto> v)\<rparr>)\<rparr>))"

text \<open>
  Modelled from the spec: \<^verbatim>\<open>GetData(key) -> value-or-absent\<close> of a host node; the
  absent value is Python's \<open>None\<close>.
\<close>

definition GetData :: "handle \<Rightarrow> string \<Rightarrow> pyval py" where
  "GetData tool key s =
     (Inr (case data (tools s tool) key of None \<Rightarrow> PNone | Some v \<Rightarrow> v),
      log_call (GetDataCall tool key) s)"

text \<open>
  Modelled from the spec: the node listing of a host session. \<^verbatim>\<open>GetToolList(selected)\<close>
  returns a table of tools, of which the caller takes the values: all tools of the
  composition, or the selected ones only.
\<close>

definition GetToolList :: "handle \<Rightarrow> bool \<Rightarrow> handle list py" where
  "GetToolList cmp selected s =
     (Inr (if selected then selected_tools (comps s cmp) else all_tools (comps s cmp)),
      log_call (GetToolListCall cmp selected) s)"

text \<open>
  Modelled from the spec: \<^verbatim>\<open>Lock()\<close>, \<^verbatim>\<open>Unlock()\<close>, \<^verbatim>\<open>StartUndo(label)\<close> and
  \<^verbatim>\<open>EndUndo()\<close> of a host session. What the host does with its lock and its undo
  history is the host's own; the calls and their order are what is kept.
\<close>

definition Lock :: "handle \<Rightarrow> unit py" where
  "Lock cmp s = (Inr (), log_call (LockCall cmp) s)"

definition Unlock :: "handle \<Rightarrow> unit py" where
  "Unlock cmp s = (Inr (), log_call (UnlockCall cmp) s)"

definition StartUndo :: "handle \<Rightarrow> string \<Rightarrow> unit py" where
  "StartUndo cmp name s = (Inr (), log_call (StartUndoCall cmp name) s)"

definition EndUndo :: "handle \<Rightarrow> unit py" where
  "EndUndo cmp s = (Inr (), log_call (EndUndoCall cmp) s)"

section \<open>The container metadata protocol\<close>

text \<open>A value of the container dictionary: a Python value or a reference to a tool.\<close>

datatype cval = Val pyval | ToolRef handle

type_synonym container = "string \<rightharpoonup> cval"

text \<open>
  \<^verbatim>\<open>imprint_container(tool, name, namespace, context, loader=None)\<close>. An omitted
  \<open>loader\<close> is the argument \<open>None\<close> here and takes the default of the signature.
  The list \<open>data\<close> is built before the loop starts, so the two subscriptions of
  \<open>context\<close> come before the first \<open>SetData\<close>.
\<close>

definition imprint_container ::
  "handle \<Rightarrow> pyval \<Rightarrow> pyval \<Rightarrow> asset_context \<Rightarrow> pyval option \<Rightarrow> unit py" where
  "imprint_container tool name namespace context loader_arg =
     (let loader = (case loader_arg of None \<Rightarrow> PNone | Some l \<Rightarrow> l) in
      py_bind (py_lift (getitem context ''representation'')) (\<lambda>representation.
      py_bind (py_lift (getitem_ctxval representation ''_id'')) (\<lambda>rid.
        let data =
          [(''schema'', ''avalon-core:container-2.0''),
           (''id'', ''pyblish.avalon.container''),
           (''name'', py_str name),
           (''namespace'', py_str namespace),
           (''loader'', py_str loader),
           (''representation'', py_str rid)]
        in for_each data (\<lambda>(key, value). SetData tool (''avalon.'' @ key) (PStr value)))))"

text \<open>\<^verbatim>\<open>parse_container(tool)\<close>\<close>

definition parse_container :: "handle \<Rightarrow> container py" where
  "parse_container tool =
     py_bind
       (for_fold [''schema'', ''id'', ''name'', ''namespace'', ''loader'', ''representation'']
          Map.empty
          (\<lambda>key container.
             py_bind (GetData tool (''avalon.'' @ key)) (\<lambda>value.
             py_return (container(key \<mapsto> Val value)))))
       (\<lambda>container. \<lambda>s.
          py_return
            (container(''objectName'' \<mapsto> Val (PStr (Name (tools s tool))),
                       ''_tool'' \<mapsto> ToolRef tool)) s)"

section \<open>Listing the containers of the composition\<close>

text \<open>
  \<^verbatim>\<open>get_current_comp()\<close>: the attribute \<open>fusion\<close> of the main module, \<open>None\<close> when
  it has none, and the current composition of that.
\<close>

definition get_current_comp :: "proc \<Rightarrow> handle option" where
  "get_current_comp s = (case fusion s of None \<Rightarrow> None | Some f \<Rightarrow> CurrentComp f)"

text \<open>
  \<^verbatim>\<open>ls()\<close> is a generator function. A generator object is created (nothing of the body
  has run), suspended at the \<open>yield\<close> inside the loop with the tools still to visit,
  or finished.
\<close>

datatype ls_gen = Created | Suspended "handle list" | Finished

text \<open>The loop from its head on, up to the next \<open>yield\<close> or to the end of the body.\<close>

fun ls_loop :: "handle list \<Rightarrow> (container option \<times> ls_gen) py" where
  "ls_loop [] s = py_return (None, Finished) s"
| "ls_loop (tool # rest) s =
     (if ID (tools s tool) \<in> set [''Loader'']
      then py_bind (parse_container tool)
             (\<lambda>container. py_return (Some container, Suspended rest)) s
      else ls_loop rest s)"

text \<open>The body from its start: a composition that is \<open>None\<close> has no \<open>GetToolList\<close>.\<close>

definition ls_body :: "(container option \<times> ls_gen) py" where
  "ls_body s =
     (case get_current_comp s of
        None \<Rightarrow> py_raise AttributeError s
      | Some cmp \<Rightarrow> py_bind (GetToolList cmp False) ls_loop s)"

definition ls :: ls_gen where
  "ls = Created"

text \<open>
  \<^verbatim>\<open>next(gen)\<close>: the yielded container, \<open>None\<close> for StopIteration, or the exception
  that ended the generator; with the generator's new state.
\<close>

definition resume ::
  "(container option \<times> ls_gen) py \<Rightarrow> proc \<Rightarrow> (error + container option) \<times> ls_gen \<times> proc" where
  "resume m s =
     (case m s of
        (Inl e, s') \<Rightarrow> (Inl e, Finished, s')
      | (Inr (c, g), s') \<Rightarrow> (Inr c, g, s'))"

definition ls_next :: "ls_gen \<Rightarrow> proc \<Rightarrow> (error + container option) \<times> ls_gen \<times> proc" where
  "ls_next g s =
     (case g of
        Created \<Rightarrow> resume ls_body s
      | Suspended rest \<Rightarrow> resume (ls_loop rest) s
      | Finished \<Rightarrow> (Inr None, Finished, s))"

text \<open>A consumer that asks the generator for at most \<open>n\<close> containers.\<close>

fun ls_take :: "nat \<Rightarrow> ls_gen \<Rightarrow> proc \<Rightarrow> (error + container list) \<times> ls_gen \<times> proc" where
  "ls_take 0 g s = (Inr [], g, s)"
| "ls_take (Suc n) g s =
     (case ls_next g s of
        (Inl e, g', s') \<Rightarrow> (Inl e, g', s')
      | (Inr None, g', s') \<Rightarrow> (Inr [], g', s')
      | (Inr (Some c), g', s') \<Rightarrow>
          (case ls_take n g' s' of
             (Inl e, g'', s'') \<Rightarrow> (Inl e, g'', s'')
           | (Inr cs, g'', s'') \<Rightarrow> (Inr (c # cs), g'', s'')))"

section \<open>Installation\<close>

text \<open>
  Modelled from the spec: the plugin registration call of the external plugin-validation
  framework, recorded in the trace.
\<close>

definition register_host :: "string \<Rightarrow> unit py" where
  "register_host name s = (Inr (), log_call (RegisterHostCall name) s)"

text \<open>The root logger of the standard library's \<open>logging\<close>.\<close>

definition removeHandler :: "log_handler \<Rightarrow> unit py" where
  "removeHandler h s = (Inr (), s\<lparr>root_handlers := remove1 h (root_handlers s)\<rparr>)"

definition addHandler :: "log_handler \<Rightarrow> unit py" where
  "addHandler h s =
     (Inr (), if h \<in> set (root_handlers s) then s
              else s\<lparr>root_handlers := root_handlers s @ [h]\<rparr>)"

definition setLevel :: "nat \<Rightarrow> unit py" where
  "setLevel l s = (Inr (), s\<lparr>root_level := l\<rparr>)"

definition DEBUG :: nat where
  "DEBUG = 10"

text \<open>\<^verbatim>\<open>importlib.import_module(name)\<close>, \<^verbatim>\<open>hasattr(m, "install")\<close>, \<^verbatim>\<open>m.install()\<close>\<close>

definition import_module :: "string \<Rightarrow> module_obj py" where
  "import_module name s =
     (case importable s name of
        NoModule \<Rightarrow> Inl ImportError
      | ImportRaises e \<Rightarrow> Inl e
      | Module m \<Rightarrow> Inr m,
      log_call (ImportModuleCall name) s)"

definition hasattr_install :: "module_obj \<Rightarrow> bool" where
  "hasattr_install m = (install_attr m \<noteq> None)"

definition call_install :: "module_obj \<Rightarrow> unit py" where
  "call_install m s =
     (case install_attr m of
        None \<Rightarrow> (Inl AttributeError, s)
      | Some NonCallable \<Rightarrow> (Inl TypeError, s)
      | Some (Function outcome) \<Rightarrow>
          (case outcome of None \<Rightarrow> Inr () | Some e \<Rightarrow> Inl e,
           log_call (AttrCall (mod_name m) ''install'' []) s))"

text \<open>\<^verbatim>\<open>install(config)\<close>\<close>

definition install :: "module_obj \<Rightarrow> unit py" where
  "install config =
     py_bind (register_host ''fusion'') (\<lambda>_.
     py_bind (\<lambda>s. for_each (root_handlers s) removeHandler s) (\<lambda>_.
     (let formatter = ''%(message)s'' @ [CHR 0x0A];
          handler = CompLogHandler formatter
      in
     py_bind (addHandler handler) (\<lambda>_.
     py_bind (setLevel DEBUG) (\<lambda>_.
     try_except_else
       (import_module (mod_name config @ ''.fusion''))
       (\<lambda>e. e = ImportError)
       (py_return ())
       (\<lambda>config. if hasattr_install config then call_install config else py_return ()))))))"

section \<open>The scoped edit session\<close>

text \<open>
  \<^verbatim>\<open>with comp_lock_and_undo_chunk(comp, undo_queue_name): body\<close>. The generator
  behind the context manager is suspended at its \<open>yield\<close> while \<open>body\<close> runs, and an
  exception of \<open>body\<close> is raised again at that \<open>yield\<close>, inside the \<open>try\<close>. An omitted
  \<open>undo_queue_name\<close> is the argument \<open>None\<close> here.
\<close>

definition comp_lock_and_undo_chunk :: "handle \<Rightarrow> string option \<Rightarrow> 'a py \<Rightarrow> 'a py" where
  "comp_lock_and_undo_chunk cmp undo_queue_name_arg body =
     (let undo_queue_name =
        (case undo_queue_name_arg of None \<Rightarrow> ''Script CMD'' | Some n \<Rightarrow> n)
      in
      try_finally
        (py_bind (Lock cmp) (\<lambda>_.
         py_bind (StartUndo cmp undo_queue_name) (\<lambda>_.
         body)))
        (py_bind (Unlock cmp) (\<lambda>_. EndUndo cmp)))"

section \<open>A host session for the examples\<close>

text \<open>
  A session with one composition of three tools: a never-imprinted Loader, a Merge, and
  a Loader that carries some data already. A configuration package named
  \<open>colorbleed\<close> has a \<open>fusion\<close> submodule with an \<open>install\<close> function.
\<close>

definition example_proc :: proc where
  "example_proc =
     \<lparr>fusion = Some \<lparr>CurrentComp = Some 0\<rparr>,
      comps = (\<lambda>_. \<lparr>all_tools = [1, 2, 3], selected_tools = [2]\<rparr>),
      tools = (\<lambda>_. \<lparr>ID = ''Merge'', Name = ''Merge1'', data = Map.empty\<rparr>)
        (1 := \<lparr>ID = ''Loader'', Name = ''Loader1'', data = Map.empty\<rparr>,
         3 := \<lparr>ID = ''Loader'', Name = ''Loader2'',
                data = [''avalon.name'' \<mapsto> PStr ''table_02'', ''comment'' \<mapsto> PInt 7]\<rparr>),
      root_handlers = [OtherHandler 0],
      root_level = 30,
      importable = (\<lambda>_. NoModule)
        (''colorbleed.fusion'' := Module \<lparr>mod_name = ''colorbleed.fusion'',
           install_attr = Some (Function None)\<rparr>),
      trace = []\<rparr>"

section \<open>What imprint and parse compute\<close>

lemma imprint_container_ok:
  assumes "context ''representation'' = Some (Doc rep)" and "rep ''_id'' = Some rid"
  shows "imprint_container tool name namespace context loader_arg s =
    (Inr (),
     s\<lparr>tools := (tools s)(tool := (tools s tool)\<lparr>data :=
         (data (tools s tool))
           (''avalon.schema'' \<mapsto> PStr ''avalon-core:container-2.0'',
            ''avalon.id'' \<mapsto> PStr ''pyblish.avalon.container'',
            ''avalon.name'' \<mapsto> PStr (py_str name),
            ''avalon.namespace'' \<mapsto> PStr (py_str namespace),
            ''avalon.loader'' \<mapsto> PStr (py_str (case loader_arg of None \<Rightarrow> PNone | Some l \<Rightarrow> l)),
            ''avalon.representation'' \<mapsto> PStr (py_str rid))\<rparr>),
       trace := trace s @
         [SetDataCall tool ''avalon.schema'' (PStr ''avalon-core:container-2.0''),
          SetDataCall tool ''avalon.id'' (PStr ''pyblish.avalon.container''),
          SetDataCall tool ''avalon.name'' (PStr (py_str name)),
          SetDataCall tool ''avalon.namespace'' (PStr (py_str namespace)),
          SetDataCall tool ''avalon.loader'' (PStr (py_str (case loader_arg of None \<Rightarrow> PNone | Some l \<Rightarrow> l))),
          SetDataCall tool ''avalon.representation'' (PStr (py_str rid))]\<rparr>)"
  using assms
  by (simp add: imprint_container_def py_bind_def py_lift_def py_return_def getitem_def
      getitem_ctxval_def SetData_def log_call_def)

lemma parse_container_eq:
  "parse_container tool s =
    (Inr [''schema'' \<mapsto> Val (case data (tools s tool) ''avalon.schema'' of None \<Rightarrow> PNone | Some v \<Rightarrow> v),
          ''id'' \<mapsto> Val (case data (tools s tool) ''avalon.id'' of None \<Rightarrow> PNone | Some v \<Rightarrow> v),
          ''name'' \<mapsto> Val (case data (tools s tool) ''avalon.name'' of None \<Rightarrow> PNone | Some v \<Rightarrow> v),
          ''namespace'' \<mapsto> Val (case data (tools s tool) ''avalon.namespace'' of None \<Rightarrow> PNone | Some v \<Rightarrow> v),
          ''loader'' \<mapsto> Val (case data (tools s tool) ''avalon.loader'' of None \<Rightarrow> PNone | Some v \<Rightarrow> v),
          ''representation'' \<mapsto> Val (case data (tools s tool) ''avalon.representation'' of None \<Rightarrow> PNone | Some v \<Rightarrow> v),
          ''objectName'' \<mapsto> Val (PStr (Name (tools s tool))),
          ''_tool'' \<mapsto> ToolRef tool],
     s\<lparr>trace := trace s @
         [GetDataCall tool ''avalon.schema'', GetDataCall tool ''avalon.id'',
          GetDataCall tool ''avalon.name'', GetDataCall tool ''avalon.namespace'',
          GetDataCall tool ''avalon.loader'', GetDataCall tool ''avalon.representation'']\<rparr>)"
  by (simp add: parse_container_def py_bind_def py_return_def GetData_def log_call_def)

lemma imprint_container_no_representation:
  assumes "context ''representation'' = None"
  shows "imprint_container tool name namespace context loader_arg s =
           (Inl (KeyError ''representation''), s)"
  using assms by (simp add: imprint_container_def py_bind_def py_lift_def getitem_def)

lemma imprint_container_no_id:
  assumes "context ''representation'' = Some (Doc rep)" and "rep ''_id'' = None"
  shows "imprint_container tool name namespace context loader_arg s = (Inl (KeyError ''_id''), s)"
  using assms
  by (simp add: imprint_container_def py_bind_def py_lift_def getitem_def getitem_ctxval_def)

lemma imprint_container_scalar:
  assumes "context ''representation'' = Some (Scalar v)"
  shows "imprint_container tool name namespace context loader_arg s = (Inl TypeError, s)"
  using assms
  by (simp add: imprint_container_def py_bind_def py_lift_def getitem_def getitem_ctxval_def)

lemma imprint_container_fails_unchanged:
  assumes "fst (imprint_container tool name namespace context loader_arg s) = Inl e"
  shows "snd (imprint_container tool name namespace context loader_arg s) = s"
proof (cases "context ''representation''")
  case None
  then show ?thesis
    by (simp add: imprint_container_no_representation)
next
  case (Some v)
  show ?thesis
  proof (cases v)
    case (Scalar x)
    with Some show ?thesis
      by (simp add: imprint_container_scalar)
  next
    case (Doc rep)
    show ?thesis
    proof (cases "rep ''_id''")
      case None
      with Some Doc show ?thesis
        by (simp add: imprint_container_no_id [of "context" rep])
    next
      case (Some rid)
      with \<open>context ''representation'' = Some v\<close> Doc assms show ?thesis
        by (simp add: imprint_container_ok [of "context" rep rid])
    qed
  qed
qed

section \<open>Properties of the container metadata protocol\<close>

text \<open>
  C1. Round trip: after \<open>imprint_container\<close> with a context that has
  \<open>representation._id\<close>, \<open>parse_container\<close> on the same node returns a dictionary
  whose \<open>name\<close>, \<open>namespace\<close>, \<open>loader\<close> and \<open>representation\<close> are the inputs
  under \<open>str\<close>, and whose \<open>schema\<close> and \<open>id\<close> are the two fixed strings.
\<close>

theorem imprint_then_parse_roundtrip:
  assumes "context ''representation'' = Some (Doc rep)" and "rep ''_id'' = Some rid"
  shows "\<exists>s1 s2 c.
           imprint_container tool name namespace context (Some producer) s = (Inr (), s1) \<and>
           parse_container tool s1 = (Inr c, s2) \<and>
           c ''name'' = Some (Val (PStr (py_str name))) \<and>
           c ''namespace'' = Some (Val (PStr (py_str namespace))) \<and>
           c ''loader'' = Some (Val (PStr (py_str producer))) \<and>
           c ''representation'' = Some (Val (PStr (py_str rid))) \<and>
           c ''schema'' = Some (Val (PStr ''avalon-core:container-2.0'')) \<and>
           c ''id'' = Some (Val (PStr ''pyblish.avalon.container''))"
  by (simp add: imprint_container_ok [of "context" rep rid, OF assms] parse_container_eq)

theorem imprint_then_parse_roundtrip_witness:
  "\<exists>s1 s2 c.
     imprint_container 1 (PStr ''chair_01'') (PStr ''charA'')
       [''representation'' \<mapsto> Doc [''_id'' \<mapsto> PObj ''60f'']] (Some (PStr ''ModelLoader''))
       example_proc = (Inr (), s1) \<and>
     parse_container 1 s1 = (Inr c, s2) \<and>
     c ''name'' = Some (Val (PStr ''chair_01'')) \<and>
     c ''namespace'' = Some (Val (PStr ''charA'')) \<and>
     c ''loader'' = Some (Val (PStr ''ModelLoader'')) \<and>
     c ''representation'' = Some (Val (PStr ''60f'')) \<and>
     c ''schema'' = Some (Val (PStr ''avalon-core:container-2.0'')) \<and>
     c ''id'' = Some (Val (PStr ''pyblish.avalon.container''))"
  using imprint_then_parse_roundtrip
    [of "[''representation'' \<mapsto> Doc [''_id'' \<mapsto> PObj ''60f'']]" "[''_id'' \<mapsto> PObj ''60f'']"
        "PObj ''60f''" 1 "PStr ''chair_01''" "PStr ''charA''" "PStr ''ModelLoader''" example_proc]
  by simp


text \<open>
  C2. \<open>imprint_container\<close> makes exactly six \<open>SetData\<close> calls, with the keys
  \<open>avalon.schema\<close>, \<open>avalon.id\<close>, \<open>avalon.name\<close>, \<open>avalon.namespace\<close>,
  \<open>avalon.loader\<close>, \<open>avalon.representation\<close>, the first two with the values
  \<open>avalon-core:container-2.0\<close> and \<open>pyblish.avalon.container\<close>. After it the node
  holds the six values under these keys; no other key of the node and no other node
  changes. \<open>parse_container\<close> makes exactly six \<open>GetData\<close> calls, with the same
  six keys, changes no node, and returns under each field what the node holds under the
  field's key.
\<close>

theorem imprint_writes_and_parse_reads_six_keys:
  assumes "context ''representation'' = Some (Doc rep)" and "rep ''_id'' = Some rid"
  shows "trace (snd (imprint_container tool name namespace context loader_arg s)) =
           trace s @
           [SetDataCall tool ''avalon.schema'' (PStr ''avalon-core:container-2.0''),
            SetDataCall tool ''avalon.id'' (PStr ''pyblish.avalon.container''),
            SetDataCall tool ''avalon.name'' (PStr (py_str name)),
            SetDataCall tool ''avalon.namespace'' (PStr (py_str namespace)),
            SetDataCall tool ''avalon.loader''
              (PStr (py_str (case loader_arg of None \<Rightarrow> PNone | Some l \<Rightarrow> l))),
            SetDataCall tool ''avalon.representation'' (PStr (py_str rid))] \<and>
         data (tools (snd (imprint_container tool name namespace context loader_arg s)) tool)
             ''avalon.schema'' = Some (PStr ''avalon-core:container-2.0'') \<and>
         data (tools (snd (imprint_container tool name namespace context loader_arg s)) tool)
             ''avalon.id'' = Some (PStr ''pyblish.avalon.container'') \<and>
         data (tools (snd (imprint_container tool name namespace context loader_arg s)) tool)
             ''avalon.name'' = Some (PStr (py_str name)) \<and>
         data (tools (snd (imprint_container tool name namespace context loader_arg s)) tool)
             ''avalon.namespace'' = Some (PStr (py_str namespace)) \<and>
         data (tools (snd (imprint_container tool name namespace context loader_arg s)) tool)
             ''avalon.loader''
           = Some (PStr (py_str (case loader_arg of None \<Rightarrow> PNone | Some l \<Rightarrow> l))) \<and>
         data (tools (snd (imprint_container tool name namespace context loader_arg s)) tool)
             ''avalon.representation'' = Some (PStr (py_str rid)) \<and>
         (\<forall>k. k \<notin> {''avalon.schema'', ''avalon.id'', ''avalon.name'', ''avalon.namespace'',
                   ''avalon.loader'', ''avalon.representation''} \<longrightarrow>
              data (tools (snd (imprint_container tool name namespace context loader_arg s)) tool) k
                = data (tools s tool) k) \<and>
         (\<forall>t. t \<noteq> tool \<longrightarrow>
              tools (snd (imprint_container tool name namespace context loader_arg s)) t
                = tools s t) \<and>
         trace (snd (parse_container tool s')) =
           trace s' @
           [GetDataCall tool ''avalon.schema'', GetDataCall tool ''avalon.id'',
            GetDataCall tool ''avalon.name'', GetDataCall tool ''avalon.namespace'',
            GetDataCall tool ''avalon.loader'', GetDataCall tool ''avalon.representation''] \<and>
         tools (snd (parse_container tool s')) = tools s' \<and>
         (\<exists>c. fst (parse_container tool s') = Inr c \<and>
            (\<forall>key \<in> {''schema'', ''id'', ''name'', ''namespace'', ''loader'', ''representation''}.
               c key = Some (Val (case data (tools s' tool) (''avalon.'' @ key) of
                                    None \<Rightarrow> PNone | Some v \<Rightarrow> v))))"
  by (simp add: imprint_container_ok [of "context" rep rid, OF assms] parse_container_eq)

theorem imprint_writes_and_parse_reads_six_keys_witness:
  "trace (snd (imprint_container 3 (PStr ''chair_01'') (PInt (- 12))
       [''representation'' \<mapsto> Doc [''_id'' \<mapsto> PObj ''60f'']] None example_proc)) =
     [SetDataCall 3 ''avalon.schema'' (PStr ''avalon-core:container-2.0''),
      SetDataCall 3 ''avalon.id'' (PStr ''pyblish.avalon.container''),
      SetDataCall 3 ''avalon.name'' (PStr ''chair_01''),
      SetDataCall 3 ''avalon.namespace'' (PStr ''-12''),
      SetDataCall 3 ''avalon.loader'' (PStr ''None''),
      SetDataCall 3 ''avalon.representation'' (PStr ''60f'')] \<and>
   data (tools (snd (imprint_container 3 (PStr ''chair_01'') (PInt (- 12))
       [''representation'' \<mapsto> Doc [''_id'' \<mapsto> PObj ''60f'']] None example_proc)) 3)
       ''avalon.schema'' = Some (PStr ''avalon-core:container-2.0'') \<and>
   data (tools (snd (imprint_container 3 (PStr ''chair_01'') (PInt (- 12))
       [''representation'' \<mapsto> Doc [''_id'' \<mapsto> PObj ''60f'']] None example_proc)) 3)
       ''avalon.id'' = Some (PStr ''pyblish.avalon.container'') \<and>
   data (tools (snd (imprint_container 3 (PStr ''chair_01'') (PInt (- 12))
       [''representation'' \<mapsto> Doc [''_id'' \<mapsto> PObj ''60f'']] None example_proc)) 3)
       ''avalon.name'' = Some (PStr ''chair_01'') \<and>
   data (tools (snd (imprint_container 3 (PStr ''chair_01'') (PInt (- 12))
       [''representation'' \<mapsto> Doc [''_id'' \<mapsto> PObj ''60f'']] None example_proc)) 3)
       ''avalon.namespace'' = Some (PStr ''-12'') \<and>
   data (tools (snd (imprint_container 3 (PStr ''chair_01'') (PInt (- 12))
       [''representation'' \<mapsto> Doc [''_id'' \<mapsto> PObj ''60f'']] None example_proc)) 3)
       ''avalon.loader'' = Some (PStr ''None'') \<and>
   data (tools (snd (imprint_container 3 (PStr ''chair_01'') (PInt (- 12))
       [''representation'' \<mapsto> Doc [''_id'' \<mapsto> PObj ''60f'']] None example_proc)) 3)
       ''avalon.representation'' = Some (PStr ''60f'') \<and>
   data (tools (snd (imprint_container 3 (PStr ''chair_01'') (PInt (- 12))
       [''representation'' \<mapsto> Doc [''_id'' \<mapsto> PObj ''60f'']] None example_proc)) 3)
       ''comment'' = Some (PInt 7) \<and>
   tools (snd (imprint_container 3 (PStr ''chair_01'') (PInt (- 12))
       [''representation'' \<mapsto> Doc [''_id'' \<mapsto> PObj ''60f'']] None example_proc)) 1
     = \<lparr>ID = ''Loader'', Name = ''Loader1'', data = Map.empty\<rparr> \<and>
   trace (snd (parse_container 3 example_proc)) =
     [GetDataCall 3 ''avalon.schema'', GetDataCall 3 ''avalon.id'',
      GetDataCall 3 ''avalon.name'', GetDataCall 3 ''avalon.namespace'',
      GetDataCall 3 ''avalon.loader'', GetDataCall 3 ''avalon.representation''] \<and>
   tools (snd (parse_container 3 example_proc)) = tools example_proc \<and>
   (\<exists>c. fst (parse_container 3 example_proc) = Inr c \<and>
      c ''schema'' = Some (Val PNone) \<and> c ''id'' = Some (Val PNone) \<and>
      c ''name'' = Some (Val (PStr ''table_02'')) \<and> c ''namespace'' = Some (Val PNone) \<and>
      c ''loader'' = Some (Val PNone) \<and> c ''representation'' = Some (Val PNone))"
proof -
  have dec: "dec_nat 12 = ''12''"
    by (simp add: dec_nat.simps)
  show ?thesis
    using imprint_writes_and_parse_reads_six_keys
      [of "[''representation'' \<mapsto> Doc [''_id'' \<mapsto> PObj ''60f'']]" "[''_id'' \<mapsto> PObj ''60f'']"
          "PObj ''60f''" 3 "PStr ''chair_01''" "PInt (- 12)" None example_proc example_proc]
    by (simp add: example_proc_def dec)
qed

text \<open>
  C3. After two calls of \<open>imprint_container\<close> on the same node, each of the six keys
  holds the value of the second call, the nodes are as if only the second call had been
  made, and \<open>parse_container\<close> returns the second call's values.
\<close>

theorem imprint_twice_keeps_second:
  assumes "context1 ''representation'' = Some (Doc rep1)" and "rep1 ''_id'' = Some rid1"
    and "context2 ''representation'' = Some (Doc rep2)" and "rep2 ''_id'' = Some rid2"
  shows "\<exists>s1 s2 s3 c.
           imprint_container tool name1 namespace1 context1 loader_arg1 s = (Inr (), s1) \<and>
           imprint_container tool name2 namespace2 context2 loader_arg2 s1 = (Inr (), s2) \<and>
           data (tools s2 tool) ''avalon.schema'' = Some (PStr ''avalon-core:container-2.0'') \<and>
           data (tools s2 tool) ''avalon.id'' = Some (PStr ''pyblish.avalon.container'') \<and>
           data (tools s2 tool) ''avalon.name'' = Some (PStr (py_str name2)) \<and>
           data (tools s2 tool) ''avalon.namespace'' = Some (PStr (py_str namespace2)) \<and>
           data (tools s2 tool) ''avalon.loader'' = Some (PStr (py_str (case loader_arg2 of None \<Rightarrow> PNone | Some l \<Rightarrow> l))) \<and>
           data (tools s2 tool) ''avalon.representation'' = Some (PStr (py_str rid2)) \<and>
           tools s2 =
             tools (snd (imprint_container tool name2 namespace2 context2 loader_arg2 s)) \<and>
           parse_container tool s2 = (Inr c, s3) \<and>
           c ''schema'' = Some (Val (PStr ''avalon-core:container-2.0'')) \<and>
           c ''id'' = Some (Val (PStr ''pyblish.avalon.container'')) \<and>
           c ''name'' = Some (Val (PStr (py_str name2))) \<and>
           c ''namespace'' = Some (Val (PStr (py_str namespace2))) \<and>
           c ''loader'' = Some (Val (PStr (py_str (case loader_arg2 of None \<Rightarrow> PNone | Some l \<Rightarrow> l)))) \<and>
           c ''representation'' = Some (Val (PStr (py_str rid2)))"
  by (simp add: imprint_container_ok [of context1 rep1 rid1, OF assms(1,2)]
      imprint_container_ok [of context2 rep2 rid2, OF assms(3,4)] parse_container_eq)

theorem imprint_twice_keeps_second_witness:
  "\<exists>s1 s2 s3 c.
     imprint_container 1 (PStr ''chair_01'') (PStr ''charA'')
       [''representation'' \<mapsto> Doc [''_id'' \<mapsto> PObj ''60f'']] (Some (PStr ''ModelLoader''))
       example_proc = (Inr (), s1) \<and>
     imprint_container 1 (PStr ''lamp_03'') (PStr ''setB'')
       [''representation'' \<mapsto> Doc [''_id'' \<mapsto> PObj ''71a'']] (Some (PStr ''RigLoader''))
       s1 = (Inr (), s2) \<and>
     data (tools s2 1) ''avalon.schema'' = Some (PStr ''avalon-core:container-2.0'') \<and>
     data (tools s2 1) ''avalon.id'' = Some (PStr ''pyblish.avalon.container'') \<and>
     data (tools s2 1) ''avalon.name'' = Some (PStr ''lamp_03'') \<and>
     data (tools s2 1) ''avalon.namespace'' = Some (PStr ''setB'') \<and>
     data (tools s2 1) ''avalon.loader'' = Some (PStr ''RigLoader'') \<and>
     data (tools s2 1) ''avalon.representation'' = Some (PStr ''71a'') \<and>
     tools s2 =
       tools (snd (imprint_container 1 (PStr ''lamp_03'') (PStr ''setB'')
         [''representation'' \<mapsto> Doc [''_id'' \<mapsto> PObj ''71a'']] (Some (PStr ''RigLoader''))
         example_proc)) \<and>
     parse_container 1 s2 = (Inr c, s3) \<and>
     c ''schema'' = Some (Val (PStr ''avalon-core:container-2.0'')) \<and>
     c ''id'' = Some (Val (PStr ''pyblish.avalon.container'')) \<and>
     c ''name'' = Some (Val (PStr ''lamp_03'')) \<and>
     c ''namespace'' = Some (Val (PStr ''setB'')) \<and>
     c ''loader'' = Some (Val (PStr ''RigLoader'')) \<and>
     c ''representation'' = Some (Val (PStr ''71a''))"
  using imprint_twice_keeps_second
    [of "[''representation'' \<mapsto> Doc [''_id'' \<mapsto> PObj ''60f'']]" "[''_id'' \<mapsto> PObj ''60f'']"
        "PObj ''60f''"
        "[''representation'' \<mapsto> Doc [''_id'' \<mapsto> PObj ''71a'']]" "[''_id'' \<mapsto> PObj ''71a'']"
        "PObj ''71a''"
        1 "PStr ''chair_01''" "PStr ''charA''" "Some (PStr ''ModelLoader'')" example_proc
        "PStr ''lamp_03''" "PStr ''setB''" "Some (PStr ''RigLoader'')"]
  by simp

text \<open>
  C4. \<open>parse_container\<close> returns a dictionary for every node and never raises. The
  dictionary has the six metadata fields, the node's display name under
  \<open>objectName\<close> and the node itself under \<open>_tool\<close>; when none of the six keys
  holds a value on the node, all six fields are \<open>None\<close>.
\<close>

theorem parse_container_always_returns:
  "\<exists>c s'.
     parse_container tool s = (Inr c, s') \<and>
     dom c = {''schema'', ''id'', ''name'', ''namespace'', ''loader'', ''representation'',
              ''objectName'', ''_tool''} \<and>
     c ''objectName'' = Some (Val (PStr (Name (tools s tool)))) \<and>
     c ''_tool'' = Some (ToolRef tool) \<and>
     ((\<forall>key \<in> {''schema'', ''id'', ''name'', ''namespace'', ''loader'', ''representation''}.
          data (tools s tool) (''avalon.'' @ key) = None) \<longrightarrow>
      (\<forall>key \<in> {''schema'', ''id'', ''name'', ''namespace'', ''loader'', ''representation''}.
          c key = Some (Val PNone)))"
  by (simp add: parse_container_eq) auto

theorem parse_container_always_returns_witness:
  "\<exists>c s'.
     parse_container 1 example_proc = (Inr c, s') \<and>
     dom c = {''schema'', ''id'', ''name'', ''namespace'', ''loader'', ''representation'',
              ''objectName'', ''_tool''} \<and>
     c ''objectName'' = Some (Val (PStr ''Loader1'')) \<and>
     c ''_tool'' = Some (ToolRef 1) \<and>
     c ''schema'' = Some (Val PNone) \<and> c ''id'' = Some (Val PNone) \<and>
     c ''name'' = Some (Val PNone) \<and> c ''namespace'' = Some (Val PNone) \<and>
     c ''loader'' = Some (Val PNone) \<and> c ''representation'' = Some (Val PNone)"
  using parse_container_always_returns [of 1 example_proc]
  by (simp add: example_proc_def)

text \<open>
  C6. When \<open>context\<close> has no key \<open>representation\<close>, or the document under it has no
  key \<open>_id\<close>, \<open>imprint_container\<close> raises KeyError and does not complete; when it
  completes, it returns nothing (the unit value).
\<close>

theorem imprint_container_malformed_context:
  "(context ''representation'' = None \<longrightarrow>
      fst (imprint_container tool name namespace context loader_arg s)
        = Inl (KeyError ''representation'')) \<and>
   (context ''representation'' = Some (Doc rep) \<and> rep ''_id'' = None \<longrightarrow>
      fst (imprint_container tool name namespace context loader_arg s) = Inl (KeyError ''_id'')) \<and>
   (context ''representation'' = Some (Doc rep) \<and> rep ''_id'' = Some rid \<longrightarrow>
      fst (imprint_container tool name namespace context loader_arg s) = Inr ())"
proof (intro conjI impI)
  assume "context ''representation'' = None"
  then show "fst (imprint_container tool name namespace context loader_arg s)
      = Inl (KeyError ''representation'')"
    by (simp add: imprint_container_no_representation)
next
  assume "context ''representation'' = Some (Doc rep) \<and> rep ''_id'' = None"
  then show "fst (imprint_container tool name namespace context loader_arg s)
      = Inl (KeyError ''_id'')"
    by (simp add: imprint_container_no_id [of "context" rep])
next
  assume "context ''representation'' = Some (Doc rep) \<and> rep ''_id'' = Some rid"
  then show "fst (imprint_container tool name namespace context loader_arg s) = Inr ()"
    by (simp add: imprint_container_ok [of "context" rep rid])
qed

theorem imprint_container_malformed_context_witness:
  "fst (imprint_container 1 (PStr ''chair_01'') (PStr ''charA'')
          [''asset'' \<mapsto> Doc [''_id'' \<mapsto> PObj ''5dd'']] None example_proc)
     = Inl (KeyError ''representation'') \<and>
   fst (imprint_container 1 (PStr ''chair_01'') (PStr ''charA'')
          [''representation'' \<mapsto> Doc [''name'' \<mapsto> PStr ''abc'']] None example_proc)
     = Inl (KeyError ''_id'') \<and>
   fst (imprint_container 1 (PStr ''chair_01'') (PStr ''charA'')
          [''representation'' \<mapsto> Doc [''_id'' \<mapsto> PObj ''60f'']] None example_proc)
     = Inr ()"
  using imprint_container_malformed_context
      [of "[''asset'' \<mapsto> Doc [''_id'' \<mapsto> PObj ''5dd'']]" 1 "PStr ''chair_01''" "PStr ''charA''"
          None example_proc]
    imprint_container_malformed_context
      [of "[''representation'' \<mapsto> Doc [''name'' \<mapsto> PStr ''abc'']]" 1 "PStr ''chair_01''"
          "PStr ''charA''" None example_proc "[''name'' \<mapsto> PStr ''abc'']"]
    imprint_container_malformed_context
      [of "[''representation'' \<mapsto> Doc [''_id'' \<mapsto> PObj ''60f'']]" 1 "PStr ''chair_01''"
          "PStr ''charA''" None example_proc "[''_id'' \<mapsto> PObj ''60f'']" "PObj ''60f''"]
  by simp

text \<open>
  C9. With a context that lacks \<open>representation._id\<close>, \<open>imprint_container\<close> raises
  before any \<open>SetData\<close> call: the whole state, the nodes' data and the trace of calls
  included, is as before. More generally, a call that raises leaves the state as it was.
\<close>

theorem imprint_container_atomic_on_malformed_context:
  "(context ''representation'' = None \<or>
      (\<exists>rep. context ''representation'' = Some (Doc rep) \<and> rep ''_id'' = None) \<longrightarrow>
      (\<exists>e. imprint_container tool name namespace context loader_arg s = (Inl e, s))) \<and>
   (\<forall>e. fst (imprint_container tool name namespace context loader_arg s) = Inl e \<longrightarrow>
      snd (imprint_container tool name namespace context loader_arg s) = s)"
proof (intro conjI impI allI)
  assume "context ''representation'' = None \<or>
      (\<exists>rep. context ''representation'' = Some (Doc rep) \<and> rep ''_id'' = None)"
  then show "\<exists>e. imprint_container tool name namespace context loader_arg s = (Inl e, s)"
  proof
    assume "context ''representation'' = None"
    then show ?thesis
      by (simp add: imprint_container_no_representation)
  next
    assume "\<exists>rep. context ''representation'' = Some (Doc rep) \<and> rep ''_id'' = None"
    then obtain rep where "context ''representation'' = Some (Doc rep)" and "rep ''_id'' = None"
      by blast
    then show ?thesis
      by (simp add: imprint_container_no_id [of "context" rep])
  qed
next
  fix e
  assume "fst (imprint_container tool name namespace context loader_arg s) = Inl e"
  then show "snd (imprint_container tool name namespace context loader_arg s) = s"
    by (rule imprint_container_fails_unchanged)
qed

theorem imprint_container_atomic_on_malformed_context_witness:
  "(\<exists>e. imprint_container 3 (PStr ''chair_01'') (PStr ''charA'')
          [''representation'' \<mapsto> Doc [''name'' \<mapsto> PStr ''abc'']] (Some (PStr ''ModelLoader''))
          example_proc = (Inl e, example_proc)) \<and>
   data (tools (snd (imprint_container 3 (PStr ''chair_01'') (PStr ''charA'')
          [''representation'' \<mapsto> Doc [''name'' \<mapsto> PStr ''abc'']] (Some (PStr ''ModelLoader''))
          example_proc)) 3) ''avalon.name'' = Some (PStr ''table_02'')"
proof -
  let ?ctx = "[''representation'' \<mapsto> Doc [''name'' \<mapsto> PStr ''abc'']]"
  have malformed: "?ctx ''representation'' = None \<or>
      (\<exists>rep. ?ctx ''representation'' = Some (Doc rep) \<and> rep ''_id'' = None)"
    by simp
  from imprint_container_atomic_on_malformed_context
    [of ?ctx 3 "PStr ''chair_01''" "PStr ''charA''" "Some (PStr ''ModelLoader'')" example_proc]
    malformed
  have *: "\<exists>e. imprint_container 3 (PStr ''chair_01'') (PStr ''charA'') ?ctx
      (Some (PStr ''ModelLoader'')) example_proc = (Inl e, example_proc)"
    by blast
  then show ?thesis
    by (auto simp: example_proc_def)
qed

text \<open>
  C10. An omitted \<open>loader\<close>, the argument \<open>None\<close> and the argument \<open>"None"\<close>
  have the same effect: the text \<open>None\<close> is stored under \<open>avalon.loader\<close>, and
  \<open>parse_container\<close> then returns that text, not \<open>None\<close> and not the empty string.
\<close>

theorem imprint_container_default_loader:
  "imprint_container tool name namespace context None s
     = imprint_container tool name namespace context (Some PNone) s \<and>
   imprint_container tool name namespace context None s
     = imprint_container tool name namespace context (Some (PStr ''None'')) s \<and>
   (context ''representation'' = Some (Doc rep) \<and> rep ''_id'' = Some rid \<longrightarrow>
     (\<exists>s1 s2 c.
        imprint_container tool name namespace context None s = (Inr (), s1) \<and>
        data (tools s1 tool) ''avalon.loader'' = Some (PStr ''None'') \<and>
        parse_container tool s1 = (Inr c, s2) \<and>
        c ''loader'' = Some (Val (PStr ''None'')) \<and>
        c ''loader'' \<noteq> Some (Val PNone) \<and>
        c ''loader'' \<noteq> Some (Val (PStr ''''))))"
proof (intro conjI impI)
  show "imprint_container tool name namespace context None s
     = imprint_container tool name namespace context (Some PNone) s"
    by (simp add: imprint_container_def)
  show "imprint_container tool name namespace context None s
     = imprint_container tool name namespace context (Some (PStr ''None'')) s"
    by (simp add: imprint_container_def)
next
  assume "context ''representation'' = Some (Doc rep) \<and> rep ''_id'' = Some rid"
  then show "\<exists>s1 s2 c.
        imprint_container tool name namespace context None s = (Inr (), s1) \<and>
        data (tools s1 tool) ''avalon.loader'' = Some (PStr ''None'') \<and>
        parse_container tool s1 = (Inr c, s2) \<and>
        c ''loader'' = Some (Val (PStr ''None'')) \<and>
        c ''loader'' \<noteq> Some (Val PNone) \<and>
        c ''loader'' \<noteq> Some (Val (PStr ''''))"
    by (simp add: imprint_container_ok [of "context" rep rid] parse_container_eq)
qed

theorem imprint_container_default_loader_witness:
  "\<exists>s1 s2 c.
     imprint_container 1 (PStr ''chair_01'') (PStr ''charA'')
       [''representation'' \<mapsto> Doc [''_id'' \<mapsto> PObj ''60f'']] None example_proc = (Inr (), s1) \<and>
     data (tools s1 1) ''avalon.loader'' = Some (PStr ''None'') \<and>
     parse_container 1 s1 = (Inr c, s2) \<and>
     c ''loader'' = Some (Val (PStr ''None'')) \<and>
     c ''loader'' \<noteq> Some (Val PNone) \<and>
     c ''loader'' \<noteq> Some (Val (PStr ''''))"
  using imprint_container_default_loader
    [of 1 "PStr ''chair_01''" "PStr ''charA''"
        "[''representation'' \<mapsto> Doc [''_id'' \<mapsto> PObj ''60f'']]" example_proc
        "[''_id'' \<mapsto> PObj ''60f'']" "PObj ''60f''",
        THEN conjunct2, THEN conjunct2]
  by simp

section \<open>Properties of the scoped edit session\<close>

text \<open>
  C5. For every composition and every body, \<open>comp_lock_and_undo_chunk\<close> calls
  \<open>Lock\<close> and then \<open>StartUndo\<close> with the queue name before the body runs, and
  after the body, whether it returned or raised, calls \<open>Unlock\<close> and \<open>EndUndo\<close>;
  the outcome of the body, its exception included, is the outcome of the whole.
\<close>

theorem comp_lock_and_undo_chunk_brackets_body:
  "comp_lock_and_undo_chunk cmp undo_queue_name_arg body s =
     (let undo_queue_name =
            (case undo_queue_name_arg of None \<Rightarrow> ''Script CMD'' | Some n \<Rightarrow> n);
          entered = s\<lparr>trace := trace s @ [LockCall cmp, StartUndoCall cmp undo_queue_name]\<rparr>;
          (outcome, left) = body entered
      in (outcome, left\<lparr>trace := trace left @ [UnlockCall cmp, EndUndoCall cmp]\<rparr>))"
  by (simp add: comp_lock_and_undo_chunk_def try_finally_def py_bind_def Lock_def StartUndo_def
      Unlock_def EndUndo_def log_call_def Let_def split: prod.splits)

theorem comp_lock_and_undo_chunk_brackets_body_witness:
  "comp_lock_and_undo_chunk 0 None
     (py_bind (SetData 1 ''comment'' (PInt 1)) (\<lambda>_. py_raise (OtherError ''boom''))) example_proc
     = (Inl (OtherError ''boom''),
        example_proc
          \<lparr>tools := (tools example_proc)
             (1 := \<lparr>ID = ''Loader'', Name = ''Loader1'', data = [''comment'' \<mapsto> PInt 1]\<rparr>),
           trace := [LockCall 0, StartUndoCall 0 ''Script CMD'',
                     SetDataCall 1 ''comment'' (PInt 1), UnlockCall 0, EndUndoCall 0]\<rparr>) \<and>
   comp_lock_and_undo_chunk 0 (Some ''Imprint'') (py_return True) example_proc
     = (Inr True,
        example_proc
          \<lparr>trace := [LockCall 0, StartUndoCall 0 ''Imprint'', UnlockCall 0, EndUndoCall 0]\<rparr>)"
  using comp_lock_and_undo_chunk_brackets_body
      [of 0 None "py_bind (SetData 1 ''comment'' (PInt 1)) (\<lambda>_. py_raise (OtherError ''boom''))"
          example_proc]
    comp_lock_and_undo_chunk_brackets_body [of 0 "Some ''Imprint''" "py_return True" example_proc]
  by (simp add: py_bind_def py_raise_def py_return_def SetData_def log_call_def example_proc_def)

section \<open>Properties of the container listing\<close>

lemma parse_container_returns: "\<exists>c. fst (parse_container tool s) = Inr c"
  by (simp add: parse_container_eq)

lemma parse_container_tools: "tools (snd (parse_container tool s)) = tools s"
  by (simp add: parse_container_eq)

lemma parse_container_trace:
  "trace (snd (parse_container tool s)) =
     trace s @ map (\<lambda>key. GetDataCall tool (''avalon.'' @ key))
       [''schema'', ''id'', ''name'', ''namespace'', ''loader'', ''representation'']"
  by (simp add: parse_container_eq)

lemma parse_container_reads_tools:
  "tools s' = tools s \<Longrightarrow> fst (parse_container tool s') = fst (parse_container tool s)"
  by (simp add: parse_container_eq)

lemma ls_loop_none:
  "filter (\<lambda>t. ID (tools s t) = ''Loader'') rest = [] \<Longrightarrow>
     ls_loop rest s = (Inr (None, Finished), s)"
  by (induction rest) (simp_all add: py_return_def split: if_splits)

lemma ls_loop_some:
  "filter (\<lambda>t. ID (tools s t) = ''Loader'') rest = t # ts \<Longrightarrow>
     \<exists>c rest'. fst (parse_container t s) = Inr c \<and>
       ls_loop rest s = (Inr (Some c, Suspended rest'), snd (parse_container t s)) \<and>
       filter (\<lambda>t. ID (tools s t) = ''Loader'') rest' = ts"
proof (induction rest)
  case Nil
  then show ?case by simp
next
  case (Cons a rest)
  show ?case
  proof (cases "ID (tools s a) = ''Loader''")
    case True
    with Cons.prems have "a = t" and "filter (\<lambda>t. ID (tools s t) = ''Loader'') rest = ts"
      by simp_all
    moreover obtain c s' where "parse_container t s = (Inr c, s')"
      using parse_container_returns [of t s] by (cases "parse_container t s") auto
    ultimately show ?thesis
      using True by (auto simp: py_bind_def py_return_def)
  next
    case False
    with Cons show ?thesis by simp
  qed
qed

lemma ls_take_suspended:
  "\<exists>cs g s'.
     ls_take n (Suspended rest) s = (Inr cs, g, s') \<and>
     map Inr cs =
       take n (map (\<lambda>t. fst (parse_container t s))
         (filter (\<lambda>t. ID (tools s t) = ''Loader'') rest)) \<and>
     tools s' = tools s \<and>
     (length (filter (\<lambda>t. ID (tools s t) = ''Loader'') rest) < n \<longrightarrow> g = Finished) \<and>
     trace s' =
       trace s @ concat (map (\<lambda>t. map (\<lambda>key. GetDataCall t (''avalon.'' @ key))
           [''schema'', ''id'', ''name'', ''namespace'', ''loader'', ''representation''])
         (take n (filter (\<lambda>t. ID (tools s t) = ''Loader'') rest)))"
proof (induction n arbitrary: rest s)
  case 0
  show ?case by simp
next
  case (Suc n)
  show ?case
  proof (cases "filter (\<lambda>t. ID (tools s t) = ''Loader'') rest")
    case Nil
    then show ?thesis
      by (simp add: ls_next_def resume_def ls_loop_none)
  next
    case (Cons t ts)
    from ls_loop_some [OF Cons] obtain c rest' where
      c: "fst (parse_container t s) = Inr c" and
      loop: "ls_loop rest s = (Inr (Some c, Suspended rest'), snd (parse_container t s))" and
      rest': "filter (\<lambda>t. ID (tools s t) = ''Loader'') rest' = ts"
      by blast
    let ?s1 = "snd (parse_container t s)"
    have tools1: "tools ?s1 = tools s"
      by (rule parse_container_tools)
    from Suc.IH [of rest' ?s1] obtain cs g s' where
      take: "ls_take n (Suspended rest') ?s1 = (Inr cs, g, s')" and
      cs: "map Inr cs =
        take n (map (\<lambda>t. fst (parse_container t ?s1))
          (filter (\<lambda>t. ID (tools ?s1 t) = ''Loader'') rest'))" and
      tools': "tools s' = tools ?s1" and
      fin: "length (filter (\<lambda>t. ID (tools ?s1 t) = ''Loader'') rest') < n \<longrightarrow> g = Finished" and
      tr: "trace s' =
        trace ?s1 @ concat (map (\<lambda>t. map (\<lambda>key. GetDataCall t (''avalon.'' @ key))
            [''schema'', ''id'', ''name'', ''namespace'', ''loader'', ''representation''])
          (take n (filter (\<lambda>t. ID (tools ?s1 t) = ''Loader'') rest')))"
      by blast
    have same: "(\<lambda>t. fst (parse_container t ?s1)) = (\<lambda>t. fst (parse_container t s))"
      using parse_container_reads_tools [OF tools1] by blast
    have "ls_take (Suc n) (Suspended rest) s = (Inr (c # cs), g, s')"
      using loop take by (simp add: ls_next_def resume_def)
    moreover have "map Inr (c # cs) =
        take (Suc n) (map (\<lambda>t. fst (parse_container t s))
          (filter (\<lambda>t. ID (tools s t) = ''Loader'') rest))"
      using cs c rest' by (simp add: Cons tools1 same)
    moreover have "tools s' = tools s"
      using tools' tools1 by simp
    moreover have "length (filter (\<lambda>t. ID (tools s t) = ''Loader'') rest) < Suc n \<longrightarrow> g = Finished"
      using fin rest' by (simp add: Cons tools1)
    moreover have "trace s' =
        trace s @ concat (map (\<lambda>t. map (\<lambda>key. GetDataCall t (''avalon.'' @ key))
            [''schema'', ''id'', ''name'', ''namespace'', ''loader'', ''representation''])
          (take (Suc n) (filter (\<lambda>t. ID (tools s t) = ''Loader'') rest)))"
      using tr rest' by (simp add: Cons tools1 parse_container_trace)
    ultimately show ?thesis
      by blast
  qed
qed

lemma ls_take_created:
  assumes "get_current_comp s = Some cmp"
  shows "ls_take (Suc n) ls s =
     ls_take (Suc n) (Suspended (all_tools (comps s cmp))) (log_call (GetToolListCall cmp False) s)"
  using assms
  proof -
  have "ls_next ls s =
      ls_next (Suspended (all_tools (comps s cmp))) (log_call (GetToolListCall cmp False) s)"
    using assms
    by (simp add: ls_def ls_next_def ls_body_def resume_def py_bind_def GetToolList_def)
  then show ?thesis
    by simp
qed

text \<open>
  C7. \<open>ls()\<close> runs nothing until a container is asked for. Asked for \<open>n\<close> containers,
  it yields the first \<open>n\<close> of the results of \<open>parse_container\<close> on the tools
  of kind \<open>Loader\<close> in the composition's tool list, in the order of that list, and
  nothing for a tool of another kind; the host has then been asked for the tool list once
  and for the data of the yielded tools only. Once the list is used up the generator is
  finished and yields nothing more.
\<close>

theorem ls_yields_parsed_loaders:
  assumes "get_current_comp s = Some cmp"
  shows "\<exists>cs g s'.
     ls_take n ls s = (Inr cs, g, s') \<and>
     map Inr cs =
       take n (map (\<lambda>t. fst (parse_container t s))
         (filter (\<lambda>t. ID (tools s t) = ''Loader'') (all_tools (comps s cmp)))) \<and>
     (length (filter (\<lambda>t. ID (tools s t) = ''Loader'') (all_tools (comps s cmp))) < n \<longrightarrow>
        g = Finished \<and> ls_next g s' = (Inr None, Finished, s')) \<and>
     trace s' =
       trace s @
       (if n = 0 then []
        else GetToolListCall cmp False #
          concat (map (\<lambda>t. map (\<lambda>key. GetDataCall t (''avalon.'' @ key))
              [''schema'', ''id'', ''name'', ''namespace'', ''loader'', ''representation''])
            (take n (filter (\<lambda>t. ID (tools s t) = ''Loader'') (all_tools (comps s cmp))))))"
proof (cases n)
  case 0
  then show ?thesis by simp
next
  case (Suc m)
  let ?s0 = "log_call (GetToolListCall cmp False) s"
  have tools0: "tools ?s0 = tools s" and comps0: "comps ?s0 = comps s"
    and trace0: "trace ?s0 = trace s @ [GetToolListCall cmp False]"
    by (simp_all add: log_call_def)
  have same: "(\<lambda>t. fst (parse_container t ?s0)) = (\<lambda>t. fst (parse_container t s))"
    using parse_container_reads_tools [OF tools0] by blast
  from ls_take_suspended [of n "all_tools (comps s cmp)" ?s0]
  obtain cs g s' where
    "ls_take n (Suspended (all_tools (comps s cmp))) ?s0 = (Inr cs, g, s')" and
    "map Inr cs =
       take n (map (\<lambda>t. fst (parse_container t s))
         (filter (\<lambda>t. ID (tools s t) = ''Loader'') (all_tools (comps s cmp))))" and
    "length (filter (\<lambda>t. ID (tools s t) = ''Loader'') (all_tools (comps s cmp))) < n
       \<longrightarrow> g = Finished" and
    "trace s' =
       trace s @ GetToolListCall cmp False #
          concat (map (\<lambda>t. map (\<lambda>key. GetDataCall t (''avalon.'' @ key))
              [''schema'', ''id'', ''name'', ''namespace'', ''loader'', ''representation''])
            (take n (filter (\<lambda>t. ID (tools s t) = ''Loader'') (all_tools (comps s cmp)))))"
    unfolding tools0 trace0 same by auto
  moreover have "ls_take n ls s = ls_take n (Suspended (all_tools (comps s cmp))) ?s0"
    unfolding Suc by (rule ls_take_created [OF assms])
  moreover have "ls_next Finished s' = (Inr None, Finished, s')"
    by (simp add: ls_next_def)
  ultimately show ?thesis
    using Suc by auto
qed

theorem ls_yields_parsed_loaders_witness:
  "\<exists>cs g s'.
     ls_take 5 ls example_proc = (Inr cs, g, s') \<and>
     map Inr cs = [fst (parse_container 1 example_proc), fst (parse_container 3 example_proc)] \<and>
     g = Finished \<and> ls_next g s' = (Inr None, Finished, s') \<and>
     trace s' =
       [GetToolListCall 0 False,
        GetDataCall 1 ''avalon.schema'', GetDataCall 1 ''avalon.id'',
        GetDataCall 1 ''avalon.name'', GetDataCall 1 ''avalon.namespace'',
        GetDataCall 1 ''avalon.loader'', GetDataCall 1 ''avalon.representation'',
        GetDataCall 3 ''avalon.schema'', GetDataCall 3 ''avalon.id'',
        GetDataCall 3 ''avalon.name'', GetDataCall 3 ''avalon.namespace'',
        GetDataCall 3 ''avalon.loader'', GetDataCall 3 ''avalon.representation'']"
proof -
  have cmp: "get_current_comp example_proc = Some 0"
    by (simp add: get_current_comp_def example_proc_def)
  have loaders: "filter (\<lambda>t. ID (tools example_proc t) = ''Loader'')
      (all_tools (comps example_proc 0)) = [1, 3]"
    by (simp add: example_proc_def)
  have tr: "trace example_proc = []"
    by (simp add: example_proc_def)
  show ?thesis
    using ls_yields_parsed_loaders [OF cmp, of 5]
    unfolding loaders tr by simp
qed

section \<open>Properties of the installation\<close>

lemma fold_remove1_self: "fold remove1 xs (xs @ ys) = ys"
  by (induction xs) simp_all

lemma for_each_removeHandler:
  "for_each hs removeHandler s = (Inr (), s\<lparr>root_handlers := fold remove1 hs (root_handlers s)\<rparr>)"
  by (induction hs arbitrary: s) (simp_all add: py_return_def py_bind_def removeHandler_def)

lemma remove_all_root_handlers:
  "for_each (root_handlers s) removeHandler s = (Inr (), s\<lparr>root_handlers := []\<rparr>)"
  using fold_remove1_self [of "root_handlers s" "[]"] by (simp add: for_each_removeHandler)

lemma install_eq:
  "install config s =
     (let name = mod_name config @ ''.fusion'';
          s1 = s\<lparr>root_handlers := [CompLogHandler (''%(message)s'' @ [CHR 0x0A])],
                 root_level := 10,
                 trace := trace s @ [RegisterHostCall ''fusion'', ImportModuleCall name]\<rparr>
      in case importable s name of
           NoModule \<Rightarrow> (Inr (), s1)
         | ImportRaises e \<Rightarrow> (if e = ImportError then (Inr (), s1) else (Inl e, s1))
         | Module m \<Rightarrow>
             (case install_attr m of
                None \<Rightarrow> (Inr (), s1)
              | Some NonCallable \<Rightarrow> (Inl TypeError, s1)
              | Some (Function outcome) \<Rightarrow>
                  (case outcome of None \<Rightarrow> Inr () | Some e \<Rightarrow> Inl e,
                   s1\<lparr>trace := trace s1 @ [AttrCall (mod_name m) ''install'' []]\<rparr>)))"
  by (simp add: install_def py_bind_def register_host_def log_call_def remove_all_root_handlers
      addHandler_def setLevel_def DEBUG_def try_except_else_def import_module_def py_return_def
      hasattr_install_def call_install_def Let_def
      split: import_outcome.splits option.splits attr.splits)

text \<open>
  C8. When there is no submodule \<open>fusion\<close> of the configuration package,
  \<open>install\<close> returns normally and has called nothing after the failed import. When
  the submodule is there and has a function \<open>install\<close>, that function is called
  with no arguments, and its outcome is the outcome of \<open>install\<close>.
\<close>

theorem install_tolerates_missing_submodule:
  "(importable s (mod_name config @ ''.fusion'') = NoModule \<longrightarrow>
      fst (install config s) = Inr () \<and>
      trace (snd (install config s)) =
        trace s @ [RegisterHostCall ''fusion'', ImportModuleCall (mod_name config @ ''.fusion'')]) \<and>
   (importable s (mod_name config @ ''.fusion'') = Module m \<and>
    install_attr m = Some (Function outcome) \<longrightarrow>
      fst (install config s) = (case outcome of None \<Rightarrow> Inr () | Some e \<Rightarrow> Inl e) \<and>
      trace (snd (install config s)) =
        trace s @ [RegisterHostCall ''fusion'', ImportModuleCall (mod_name config @ ''.fusion''),
                   AttrCall (mod_name m) ''install'' []])"
  by (simp add: install_eq Let_def)

theorem install_tolerates_missing_submodule_witness:
  "fst (install \<lparr>mod_name = ''polly'', install_attr = None\<rparr> example_proc) = Inr () \<and>
   trace (snd (install \<lparr>mod_name = ''polly'', install_attr = None\<rparr> example_proc)) =
     [RegisterHostCall ''fusion'', ImportModuleCall ''polly.fusion''] \<and>
   fst (install \<lparr>mod_name = ''colorbleed'', install_attr = None\<rparr> example_proc) = Inr () \<and>
   trace (snd (install \<lparr>mod_name = ''colorbleed'', install_attr = None\<rparr> example_proc)) =
     [RegisterHostCall ''fusion'', ImportModuleCall ''colorbleed.fusion'',
      AttrCall ''colorbleed.fusion'' ''install'' []]"
  using install_tolerates_missing_submodule
      [of example_proc "\<lparr>mod_name = ''polly'', install_attr = None\<rparr>"]
    install_tolerates_missing_submodule
      [of example_proc "\<lparr>mod_name = ''colorbleed'', install_attr = None\<rparr>"
          "\<lparr>mod_name = ''colorbleed.fusion'', install_attr = Some (Function None)\<rparr>" None]
  by (simp add: example_proc_def)

end
